theory Spec2Isabelle
  imports Complex_Main
begin

section \<open>Values, errors and results\<close>

text \<open>
  The program of \<^verbatim>\<open>ejercicio_1.py\<close> computes with Python numbers. Every \<^verbatim>\<open>int\<close> and
  every finite \<^verbatim>\<open>float\<close> is a rational number and Python compares the two kinds
  exactly, so a number is a \<^typ>\<open>rat\<close> here; the arithmetic of the model is exact
  (no rounding error of binary floating point, no infinities or NaN).

  A method that may raise returns the outcome together with the state of \<^verbatim>\<open>self\<close>
  after the call, so that what a failed call leaves behind is part of the model.
  A constructor returns the new object, or the exception that ended the construction.
\<close>

type_synonym numero = rat

type_synonym ref = nat

datatype error = ValueError string | ZeroDivisionError | TypeError | KeyError

definition msg_capacidad_negativa :: string where
  "msg_capacidad_negativa = ''Capacidad no puede ser negativa''"

text \<open>The accented letters are the code points 225 and 237 of the Python strings.\<close>

definition msg_peso_invalido :: string where
  "msg_peso_invalido = ''Peso inv'' @ [CHR 0xE1] @ ''lido''"




section \<open>Built-ins of Python used by the program\<close>







section \<open>Vehiculo and its subclasses\<close>

text \<open>
  The abstract class cannot be instantiated; an object is of one of the three
  subclasses, each with one attribute of its own.
\<close>

datatype variante =
    CamionTolva (resistencia_chasis: numero)
  | VolqueteArticulado (num_ejes: numero)
  | CamionLigero (tipo_suspension: string)

record vehiculo =
  id_vehiculo :: string
  capacidad_tn :: "numero option"
  estado :: string
  variante :: variante

definition set_capacidad_tn :: "vehiculo \<Rightarrow> numero \<Rightarrow> (error + unit) \<times> vehiculo" where
  "set_capacidad_tn self valor =
     (if valor < 0 then (Inl (ValueError msg_capacidad_negativa), self)
      else (Inr (), self\<lparr>capacidad_tn := Some valor\<rparr>))"

text \<open>
  \<^verbatim>\<open>Vehiculo.__init__\<close> stores \<^verbatim>\<open>None\<close> as the capacity and then assigns through the
  validating setter. An exception of the setter ends the construction and the
  unfinished object is dropped, so it makes no difference that the source assigns the
  state, and the subclass its own attribute, only after the setter has returned.
\<close>

definition Vehiculo_init :: "string \<Rightarrow> numero \<Rightarrow> string \<Rightarrow> variante \<Rightarrow> error + vehiculo" where
  "Vehiculo_init idv cap est var =
     (case set_capacidad_tn
             \<lparr>id_vehiculo = idv, capacidad_tn = None, estado = est, variante = var\<rparr> cap of
        (Inl e, _) \<Rightarrow> Inl e
      | (Inr _, self) \<Rightarrow> Inr self)"

definition CamionTolva_init :: "string \<Rightarrow> numero \<Rightarrow> numero \<Rightarrow> error + vehiculo" where
  "CamionTolva_init idv cap res = Vehiculo_init idv cap ''Disponible'' (CamionTolva res)"

definition VolqueteArticulado_init :: "string \<Rightarrow> numero \<Rightarrow> numero \<Rightarrow> error + vehiculo" where
  "VolqueteArticulado_init idv cap ejes =
     Vehiculo_init idv cap ''Disponible'' (VolqueteArticulado ejes)"

definition CamionLigero_init :: "string \<Rightarrow> numero \<Rightarrow> string \<Rightarrow> error + vehiculo" where
  "CamionLigero_init idv cap susp = Vehiculo_init idv cap ''Disponible'' (CamionLigero susp)"

definition cambiar_estado :: "vehiculo \<Rightarrow> string \<Rightarrow> vehiculo" where
  "cambiar_estado self nuevo = self\<lparr>estado := nuevo\<rparr>"





section \<open>Operador\<close>

text \<open>
  \<^verbatim>\<open>Vehiculo\<close> defines no \<^verbatim>\<open>__eq__\<close>, so \<^verbatim>\<open>vehiculo not in self.vehiculos_asociados\<close>
  compares object identities: the list of an operator holds the identities of the
  vehicles, whatever their attributes are at the moment.
\<close>

datatype clase_operador = OperadorCamion | SupervisorTransporte | ControladorAlmacen

record operador =
  nombre :: string
  dni :: string
  licencia :: string
  vehiculos_asociados :: "ref list"
  clase :: clase_operador

definition Operador_init :: "clase_operador \<Rightarrow> string \<Rightarrow> string \<Rightarrow> string \<Rightarrow> operador" where
  "Operador_init cl nom d lic =
     \<lparr>nombre = nom, dni = d, licencia = lic, vehiculos_asociados = [], clase = cl\<rparr>"

definition asociar_vehiculo :: "operador \<Rightarrow> ref \<Rightarrow> operador" where
  "asociar_vehiculo self v =
     (if v \<notin> set (vehiculos_asociados self)
      then self\<lparr>vehiculos_asociados := vehiculos_asociados self @ [v]\<rparr>
      else self)"

definition calcular_bonos :: "operador \<Rightarrow> int" where
  "calcular_bonos self =
     (case clase self of
        OperadorCamion \<Rightarrow> 100
      | SupervisorTransporte \<Rightarrow> 200
      | ControladorAlmacen \<Rightarrow> 80)"


section \<open>CargaMineral\<close>

record carga_mineral =
  tipo :: string
  humedad :: numero
  peso :: "numero option"

definition set_peso :: "carga_mineral \<Rightarrow> numero \<Rightarrow> (error + unit) \<times> carga_mineral" where
  "set_peso self val =
     (if val \<le> 0 then (Inl (ValueError msg_peso_invalido), self)
      else (Inr (), self\<lparr>peso := Some val\<rparr>))"

definition CargaMineral_init :: "string \<Rightarrow> numero \<Rightarrow> numero \<Rightarrow> error + carga_mineral" where
  "CargaMineral_init t h val =
     (case set_peso \<lparr>tipo = t, humedad = h, peso = None\<rparr> val of
        (Inl e, _) \<Rightarrow> Inl e
      | (Inr _, self) \<Rightarrow> Inr self)"


section \<open>OperacionTransporte\<close>

text \<open>
  The class attribute \<^verbatim>\<open>contador\<close> is the one piece of state shared by all
  constructions: the constructor takes its value and returns the next one. An
  operation is modelled with the state of the objects it refers to; none of its
  methods changes them.
\<close>

record operacion_transporte =
  id_op :: int
  operador :: operador
  vehiculo :: vehiculo
  carga :: carga_mineral
  distancia :: numero
  finalizada :: bool

definition contador_inicial :: int where
  "contador_inicial = 1"

definition OperacionTransporte_init ::
  "int \<Rightarrow> operador \<Rightarrow> vehiculo \<Rightarrow> carga_mineral \<Rightarrow> numero \<Rightarrow> operacion_transporte \<times> int" where
  "OperacionTransporte_init contador opr veh car d =
     (\<lparr>id_op = contador, operador = opr, vehiculo = veh, carga = car,
       distancia = d, finalizada = False\<rparr>,
      contador + 1)"




section \<open>AlmacenMineral\<close>








section \<open>Runs of the program\<close>

text \<open>
  A process that constructs operations one after the other, each construction
  starting from the counter the one before left.
\<close>

fun construir ::
  "int \<Rightarrow> (operador \<times> vehiculo \<times> carga_mineral \<times> numero) list
     \<Rightarrow> operacion_transporte list \<times> int" where
  "construir contador [] = ([], contador)"
| "construir contador ((opr, veh, car, d) # args) =
     (case OperacionTransporte_init contador opr veh car d of
        (op1, contador1) \<Rightarrow>
          (case construir contador1 args of
             (ops, contador2) \<Rightarrow> (op1 # ops, contador2)))"


text \<open>
  The objects that \<^verbatim>\<open>escenario\<close> builds, as its constructor calls return them. The
  vehicles \<^verbatim>\<open>v1\<close>, \<^verbatim>\<open>v2\<close> and \<^verbatim>\<open>v3\<close> have the identities 1, 2 and 3; the three
  operations are constructed in this order, in a process that has constructed none
  before.
\<close>

definition escenario_v1 :: vehiculo where
  "escenario_v1 =
     \<lparr>id_vehiculo = ''T001'', capacidad_tn = Some 20, estado = ''Disponible'',
      variante = CamionTolva 85\<rparr>"

definition escenario_v2 :: vehiculo where
  "escenario_v2 =
     \<lparr>id_vehiculo = ''V010'', capacidad_tn = Some 35, estado = ''Disponible'',
      variante = VolqueteArticulado 4\<rparr>"

definition escenario_v3 :: vehiculo where
  "escenario_v3 =
     \<lparr>id_vehiculo = ''L100'', capacidad_tn = Some 5, estado = ''Disponible'',
      variante = CamionLigero (''Hidr'' @ [CHR 0xE1] @ ''ulica'')\<rparr>"

definition escenario_op1 :: operador where
  "escenario_op1 =
     asociar_vehiculo (asociar_vehiculo (Operador_init OperadorCamion ''Juan'' ''123'' ''AII'') 1) 3"

definition escenario_op2 :: operador where
  "escenario_op2 =
     Operador_init SupervisorTransporte (''Mar'' @ [CHR 0xED] @ ''a'') ''456'' ''SUP''"

definition escenario_carga1 :: carga_mineral where
  "escenario_carga1 = \<lparr>tipo = ''Cobre'', humedad = 2.5, peso = Some 15\<rparr>"

definition escenario_carga2 :: carga_mineral where
  "escenario_carga2 = \<lparr>tipo = ''Plata'', humedad = 1.0, peso = Some 25\<rparr>"

definition escenario_carga3 :: carga_mineral where
  "escenario_carga3 = \<lparr>tipo = ''Oro'', humedad = 0.8, peso = Some 6\<rparr>"

definition escenario_argumentos :: "(operador \<times> vehiculo \<times> carga_mineral \<times> numero) list" where
  "escenario_argumentos =
     [(escenario_op1, escenario_v1, escenario_carga1, 12),
      (escenario_op2, escenario_v2, escenario_carga2, 40),
      (escenario_op1, escenario_v3, escenario_carga3, 8)]"

definition escenario_oper1 :: operacion_transporte where
  "escenario_oper1 =
     fst (OperacionTransporte_init 1 escenario_op1 escenario_v1 escenario_carga1 12)"

definition escenario_oper2 :: operacion_transporte where
  "escenario_oper2 =
     fst (OperacionTransporte_init 2 escenario_op2 escenario_v2 escenario_carga2 40)"

definition escenario_oper3 :: operacion_transporte where
  "escenario_oper3 =
     fst (OperacionTransporte_init 3 escenario_op1 escenario_v3 escenario_carga3 8)"


section \<open>The formulas of the specification\<close>






section \<open>Properties\<close>

subsection \<open>Auxiliary facts\<close>














lemma Vehiculo_init_ok:
  "0 \<le> c \<Longrightarrow> Vehiculo_init idv c est var =
     Inr \<lparr>id_vehiculo = idv, capacidad_tn = Some c, estado = est, variante = var\<rparr>"
  by (simp add: Vehiculo_init_def set_capacidad_tn_def)

lemma Vehiculo_init_error:
  "c < 0 \<Longrightarrow> Vehiculo_init idv c est var = Inl (ValueError msg_capacidad_negativa)"
  by (simp add: Vehiculo_init_def set_capacidad_tn_def)

lemma construir_ids:
  "map id_op (fst (construir k args)) = map (\<lambda>i. k + int i) [0..<length args]
   \<and> snd (construir k args) = k + int (length args)"
proof (induction args arbitrary: k)
  case Nil
  show ?case by simp
next
  case (Cons a args)
  obtain opr veh car d where a: "a = (opr, veh, car, d)"
    by (cases a) auto
  obtain ops k2 where r: "construir (k + 1) args = (ops, k2)"
    by fastforce
  from Cons.IH [of "k + 1"] r
  have ih: "map id_op ops = map (\<lambda>i. k + 1 + int i) [0..<length args]"
    "k2 = k + 1 + int (length args)"
    by simp_all
  have "[0..<Suc (length args)] = 0 # map Suc [0..<length args]"
    by (simp add: upt_conv_Cons map_Suc_upt del: upt_Suc)
  then have shift: "map (\<lambda>i. k + int i) [0..<Suc (length args)] =
        k # map (\<lambda>i. k + 1 + int i) [0..<length args]"
    by (simp add: o_def add.assoc del: upt_Suc)
  show ?case
    using r by (simp add: a OperacionTransporte_init_def shift ih del: upt_Suc)
qed

lemma asociar_distinct:
  "distinct (vehiculos_asociados self) \<Longrightarrow> distinct (vehiculos_asociados (asociar_vehiculo self v))"
  by (simp add: asociar_vehiculo_def)

lemma asociar_todos_distinct:
  "distinct (vehiculos_asociados self) \<Longrightarrow>
   distinct (vehiculos_asociados (foldl asociar_vehiculo self vs))"
  by (induction vs arbitrary: self) (simp_all add: asociar_distinct)

lemma asociar_lista:
  "vehiculos_asociados (asociar_vehiculo self v) =
     (if v \<in> set (vehiculos_asociados self) then vehiculos_asociados self
      else vehiculos_asociados self @ [v])"
  by (simp add: asociar_vehiculo_def)

lemma asociar_todos_lista:
  "vehiculos_asociados (foldl asociar_vehiculo (Operador_init cl nom dn lic) vs) =
     rev (remdups (rev vs))"
proof (induction vs rule: rev_induct)
  case Nil
  show ?case by (simp add: Operador_init_def)
next
  case (snoc v vs)
  show ?case
    by (simp add: asociar_lista snoc.IH)
qed


lemma escenario_construido:
  "CamionTolva_init ''T001'' 20 85 = Inr escenario_v1"
  "VolqueteArticulado_init ''V010'' 35 4 = Inr escenario_v2"
  "CamionLigero_init ''L100'' 5 (''Hidr'' @ [CHR 0xE1] @ ''ulica'') = Inr escenario_v3"
  "CargaMineral_init ''Cobre'' 2.5 15 = Inr escenario_carga1"
  "CargaMineral_init ''Plata'' 1.0 25 = Inr escenario_carga2"
  "CargaMineral_init ''Oro'' 0.8 6 = Inr escenario_carga3"
  "fst (construir contador_inicial escenario_argumentos) =
     [escenario_oper1, escenario_oper2, escenario_oper3]"
  by (simp_all add: CamionTolva_init_def VolqueteArticulado_init_def CamionLigero_init_def
      Vehiculo_init_def set_capacidad_tn_def CargaMineral_init_def set_peso_def
      escenario_v1_def escenario_v2_def escenario_v3_def escenario_carga1_def
      escenario_carga2_def escenario_carga3_def escenario_argumentos_def contador_inicial_def
      escenario_oper1_def escenario_oper2_def escenario_oper3_def OperacionTransporte_init_def)

subsection \<open>validar_peso\<close>




subsection \<open>AlmacenMineral\<close>






subsection \<open>calcular_rendimiento\<close>








subsection \<open>Validated attributes\<close>

text \<open>
  C6. For every capacity \<open>c \<ge> 0\<close>, however large, the constructor of each of the three
  variants returns a vehicle with this capacity and the setter stores \<open>c\<close>. For every
  \<open>c < 0\<close> the three constructors and the setter raise the \<^verbatim>\<open>ValueError\<close> of a negative
  capacity, and the setter leaves the vehicle, hence the capacity stored before, as it
  was.
\<close>

theorem capacidad_validada:
  "(0 \<le> c \<longrightarrow>
      CamionTolva_init idv c res =
        Inr \<lparr>id_vehiculo = idv, capacidad_tn = Some c, estado = ''Disponible'',
             variante = CamionTolva res\<rparr>
      \<and> VolqueteArticulado_init idv c ejes =
        Inr \<lparr>id_vehiculo = idv, capacidad_tn = Some c, estado = ''Disponible'',
             variante = VolqueteArticulado ejes\<rparr>
      \<and> CamionLigero_init idv c susp =
        Inr \<lparr>id_vehiculo = idv, capacidad_tn = Some c, estado = ''Disponible'',
             variante = CamionLigero susp\<rparr>
      \<and> set_capacidad_tn self c = (Inr (), self\<lparr>capacidad_tn := Some c\<rparr>))
   \<and> (c < 0 \<longrightarrow>
      CamionTolva_init idv c res = Inl (ValueError msg_capacidad_negativa)
      \<and> VolqueteArticulado_init idv c ejes = Inl (ValueError msg_capacidad_negativa)
      \<and> CamionLigero_init idv c susp = Inl (ValueError msg_capacidad_negativa)
      \<and> set_capacidad_tn self c = (Inl (ValueError msg_capacidad_negativa), self))"
  by (simp add: CamionTolva_init_def VolqueteArticulado_init_def CamionLigero_init_def
      Vehiculo_init_ok Vehiculo_init_error set_capacidad_tn_def)

theorem capacidad_validada_witness:
  "(0::rat) \<le> 20
   \<and> CamionTolva_init ''T001'' 20 85 = Inr escenario_v1
   \<and> VolqueteArticulado_init ''T001'' 20 4 = Inr (escenario_v1\<lparr>variante := VolqueteArticulado 4\<rparr>)
   \<and> CamionLigero_init ''T001'' 20 ''S'' = Inr (escenario_v1\<lparr>variante := CamionLigero ''S''\<rparr>)
   \<and> set_capacidad_tn escenario_v2 20 = (Inr (), escenario_v2\<lparr>capacidad_tn := Some 20\<rparr>)
   \<and> (0::rat) \<le> 0
   \<and> set_capacidad_tn escenario_v2 0 = (Inr (), escenario_v2\<lparr>capacidad_tn := Some 0\<rparr>)
   \<and> (- 1::rat) < 0
   \<and> CamionTolva_init ''T001'' (- 1) 85 = Inl (ValueError msg_capacidad_negativa)
   \<and> VolqueteArticulado_init ''T001'' (- 1) 4 = Inl (ValueError msg_capacidad_negativa)
   \<and> CamionLigero_init ''T001'' (- 1) ''S'' = Inl (ValueError msg_capacidad_negativa)
   \<and> set_capacidad_tn escenario_v2 (- 1) = (Inl (ValueError msg_capacidad_negativa), escenario_v2)
   \<and> capacidad_tn (snd (set_capacidad_tn escenario_v2 (- 1))) = Some 35"
proof -
  have h1: "(0::rat) \<le> 20" and h2: "(0::rat) \<le> 0" and h3: "(- 1::rat) < 0"
    by simp_all
  from capacidad_validada [of 20 "''T001''" 85 4 "''S''" escenario_v2]
    capacidad_validada [of 0 "''T001''" 85 4 "''S''" escenario_v2]
    capacidad_validada [of "- 1" "''T001''" 85 4 "''S''" escenario_v2] h1 h2 h3
  show ?thesis
    by (simp add: escenario_v1_def escenario_v2_def)
qed

text \<open>
  C7. For every weight \<open>w > 0\<close> the constructor of \<^verbatim>\<open>CargaMineral\<close> returns a load with
  this weight (and the setter stores it). For every \<open>w \<le> 0\<close> the constructor and the
  setter raise the \<^verbatim>\<open>ValueError\<close> of an invalid weight, and the setter leaves the load,
  hence the weight stored before, as it was.
\<close>

theorem peso_validado:
  "(0 < w \<longrightarrow>
      CargaMineral_init t h w = Inr \<lparr>tipo = t, humedad = h, peso = Some w\<rparr>
      \<and> set_peso self w = (Inr (), self\<lparr>peso := Some w\<rparr>))
   \<and> (w \<le> 0 \<longrightarrow>
      CargaMineral_init t h w = Inl (ValueError msg_peso_invalido)
      \<and> set_peso self w = (Inl (ValueError msg_peso_invalido), self))"
  by (simp add: CargaMineral_init_def set_peso_def)

theorem peso_validado_witness:
  "(0::rat) < 15
   \<and> CargaMineral_init ''Cobre'' 2.5 15 = Inr escenario_carga1
   \<and> set_peso escenario_carga2 15 = (Inr (), escenario_carga2\<lparr>peso := Some 15\<rparr>)
   \<and> (0::rat) \<le> 0
   \<and> CargaMineral_init ''Cobre'' 2.5 0 = Inl (ValueError msg_peso_invalido)
   \<and> set_peso escenario_carga2 0 = (Inl (ValueError msg_peso_invalido), escenario_carga2)
   \<and> (- 3::rat) \<le> 0
   \<and> CargaMineral_init ''Cobre'' 2.5 (- 3) = Inl (ValueError msg_peso_invalido)
   \<and> set_peso escenario_carga2 (- 3) = (Inl (ValueError msg_peso_invalido), escenario_carga2)
   \<and> peso (snd (set_peso escenario_carga2 (- 3))) = Some 25"
proof -
  have h1: "(0::rat) < 15" and h2: "(0::rat) \<le> 0" and h3: "(- 3::rat) \<le> 0"
    by simp_all
  from peso_validado [of 15 "''Cobre''" "2.5" escenario_carga2]
    peso_validado [of 0 "''Cobre''" "2.5" escenario_carga2]
    peso_validado [of "- 3" "''Cobre''" "2.5" escenario_carga2] h1 h2 h3
  show ?thesis
    by (simp add: escenario_carga1_def escenario_carga2_def)
qed


subsection \<open>Identifiers of the operations\<close>

text \<open>
  C8. The counter starts at 1, each construction gives the operation the value of the
  counter and leaves the counter one higher: the operations that a process constructs
  have the identifiers 1, 2, 3, ... in the order of their construction, so the
  identifiers increase strictly and no two are equal.
\<close>

theorem identificadores_consecutivos:
  "map id_op (fst (construir contador_inicial args)) = map int [1..<Suc (length args)]
   \<and> snd (construir contador_inicial args) = 1 + int (length args)
   \<and> sorted_wrt (<) (map id_op (fst (construir contador_inicial args)))
   \<and> distinct (map id_op (fst (construir contador_inicial args)))
   \<and> id_op (fst (OperacionTransporte_init k opr veh car d)) = k
   \<and> snd (OperacionTransporte_init k opr veh car d) = k + 1"
proof -
  have ids: "map id_op (fst (construir contador_inicial args)) = map int [1..<Suc (length args)]"
  proof -
    have "map (\<lambda>i. 1 + int i) [0..<length args] = map int (map Suc [0..<length args])"
      by simp
    also have "map Suc [0..<length args] = [1..<Suc (length args)]"
      by (simp add: map_Suc_upt)
    finally show ?thesis
      by (simp add: construir_ids contador_inicial_def)
  qed
  have st: "sorted_wrt (<) (map int [1..<Suc (length args)])"
    by (simp add: sorted_wrt_map del: upt_Suc)
  have di: "distinct (map int [1..<Suc (length args)])"
    by (simp add: distinct_map del: upt_Suc)
  show ?thesis
    using st di
    by (simp only: ids) (simp add: construir_ids contador_inicial_def OperacionTransporte_init_def)
qed

theorem identificadores_consecutivos_witness:
  "map id_op (fst (construir contador_inicial escenario_argumentos)) = [1, 2, 3]
   \<and> snd (construir contador_inicial escenario_argumentos) = 4
   \<and> map id_op [escenario_oper1, escenario_oper2, escenario_oper3] = [1, 2, 3]"
proof -
  have l: "1 + int (length escenario_argumentos) = 4"
    by (simp add: escenario_argumentos_def)
  have u: "map int [1..<Suc (length escenario_argumentos)] = [1, 2, 3]"
    by code_simp
  from identificadores_consecutivos [of escenario_argumentos]
  have "map id_op (fst (construir contador_inicial escenario_argumentos)) =
          map int [1..<Suc (length escenario_argumentos)]
      \<and> snd (construir contador_inicial escenario_argumentos) =
          1 + int (length escenario_argumentos)"
    by blast
  then have "map id_op (fst (construir contador_inicial escenario_argumentos)) = [1, 2, 3]
      \<and> snd (construir contador_inicial escenario_argumentos) = 4"
    by (simp only: l u)
  then show ?thesis
    by (simp add: escenario_construido)
qed


subsection \<open>asociar_vehiculo\<close>

text \<open>
  C9. \<^verbatim>\<open>asociar_vehiculo\<close> with a vehicle that the operator already has leaves the
  operator unchanged; with any other vehicle it appends the vehicle at the end of the
  list and changes nothing else. Calling it twice with the same vehicle is calling it
  once. A list without repetitions stays so. After any sequence of calls on a new
  operator the list holds each vehicle of the sequence once, in the order of the first
  calls with it (\<^const>\<open>remdups\<close> keeps the last of equal elements, so between two
  reversals it keeps the first).
\<close>

theorem asociar_vehiculo_idempotente:
  "(v \<in> set (vehiculos_asociados self) \<longrightarrow> asociar_vehiculo self v = self)
   \<and> (v \<notin> set (vehiculos_asociados self) \<longrightarrow>
        asociar_vehiculo self v = self\<lparr>vehiculos_asociados := vehiculos_asociados self @ [v]\<rparr>)
   \<and> asociar_vehiculo (asociar_vehiculo self v) v = asociar_vehiculo self v
   \<and> (distinct (vehiculos_asociados self) \<longrightarrow>
        distinct (vehiculos_asociados (asociar_vehiculo self v)))
   \<and> distinct (vehiculos_asociados (foldl asociar_vehiculo (Operador_init cl nom dn lic) vs))
   \<and> vehiculos_asociados (foldl asociar_vehiculo (Operador_init cl nom dn lic) vs) =
       rev (remdups (rev vs))"
proof -
  have "distinct (vehiculos_asociados (Operador_init cl nom dn lic))"
    by (simp add: Operador_init_def)
  then have "distinct (vehiculos_asociados (foldl asociar_vehiculo (Operador_init cl nom dn lic) vs))"
    by (rule asociar_todos_distinct)
  moreover have "vehiculos_asociados (foldl asociar_vehiculo (Operador_init cl nom dn lic) vs) =
       rev (remdups (rev vs))"
    by (rule asociar_todos_lista)
  moreover have "(v \<in> set (vehiculos_asociados self) \<longrightarrow> asociar_vehiculo self v = self)
   \<and> (v \<notin> set (vehiculos_asociados self) \<longrightarrow>
        asociar_vehiculo self v = self\<lparr>vehiculos_asociados := vehiculos_asociados self @ [v]\<rparr>)
   \<and> asociar_vehiculo (asociar_vehiculo self v) v = asociar_vehiculo self v
   \<and> (distinct (vehiculos_asociados self) \<longrightarrow>
        distinct (vehiculos_asociados (asociar_vehiculo self v)))"
    by (simp add: asociar_vehiculo_def)
  ultimately show ?thesis
    by blast
qed

theorem asociar_vehiculo_idempotente_witness:
  "vehiculos_asociados escenario_op1 = [1, 3]
   \<and> 1 \<in> set (vehiculos_asociados escenario_op1)
   \<and> asociar_vehiculo escenario_op1 1 = escenario_op1
   \<and> 2 \<notin> set (vehiculos_asociados escenario_op1)
   \<and> asociar_vehiculo escenario_op1 2 = escenario_op1\<lparr>vehiculos_asociados := [1, 3, 2]\<rparr>
   \<and> distinct (vehiculos_asociados escenario_op1)
   \<and> distinct (vehiculos_asociados (asociar_vehiculo escenario_op1 2))
   \<and> vehiculos_asociados
       (foldl asociar_vehiculo (Operador_init OperadorCamion ''Juan'' ''123'' ''AII'')
          [1, 3, 1, 2, 3]) = [1, 3, 2]"
proof -
  have l: "vehiculos_asociados escenario_op1 = [1, 3]"
    by (simp add: escenario_op1_def asociar_vehiculo_def Operador_init_def)
  have r: "rev (remdups (rev [1, 3, 1, 2, 3::nat])) = [1, 3, 2]"
    by simp
  from asociar_vehiculo_idempotente [of 1 escenario_op1]
    asociar_vehiculo_idempotente [of 2 escenario_op1 OperadorCamion "''Juan''" "''123''"
      "''AII''" "[1, 3, 1, 2, 3]"]
  show ?thesis
    by (simp add: l r)
qed

end
